theory Spec2Isabelle
  imports Complex_Main "HOL-Library.Sublist" "HOL-Library.AList"
begin

section \<open>Text primitives of the Python runtime\<close>

text \<open>
  A Python \<open>str\<close> is modelled by a HOL \<open>string\<close>; the character \<open>c\<close> stands for the
  code point \<open>of_char c\<close> (below 256), so \<open>length\<close> is Python's \<open>len\<close>.  The predicates
  below are \<open>str.isspace\<close>, the regular-expression class \<open>\w\<close> and \<open>str.lower\<close> on
  these code points.
\<close>

definition is_space :: "char \<Rightarrow> bool" where
  "is_space c =
     (let n = (of_char c :: nat)
      in (9 \<le> n \<and> n \<le> 13) \<or> (28 \<le> n \<and> n \<le> 32) \<or> n = 133 \<or> n = 160)"

definition is_word_char :: "char \<Rightarrow> bool" where
  "is_word_char c =
     (let n = (of_char c :: nat)
      in (48 \<le> n \<and> n \<le> 57) \<or> (65 \<le> n \<and> n \<le> 90) \<or> n = 95 \<or> (97 \<le> n \<and> n \<le> 122)
         \<or> n = 170 \<or> n = 178 \<or> n = 179 \<or> n = 181 \<or> n = 185 \<or> n = 186
         \<or> (188 \<le> n \<and> n \<le> 190) \<or> (192 \<le> n \<and> n \<le> 214)
         \<or> (216 \<le> n \<and> n \<le> 246) \<or> (248 \<le> n \<and> n \<le> 255))"

definition lower_char :: "char \<Rightarrow> char" where
  "lower_char c =
     (let n = (of_char c :: nat)
      in if (65 \<le> n \<and> n \<le> 90) \<or> (192 \<le> n \<and> n \<le> 222 \<and> n \<noteq> 215)
         then char_of (n + 32) else c)"

definition lower :: "string \<Rightarrow> string" where
  "lower t = map lower_char t"

definition strip :: "string \<Rightarrow> string" where
  "strip t = rev (dropWhile is_space (rev (dropWhile is_space t)))"

definition endswith :: "string \<Rightarrow> string \<Rightarrow> bool" where
  "endswith t s = suffix s t"

definition startswith :: "string \<Rightarrow> string \<Rightarrow> bool" where
  "startswith t s = prefix s t"

text \<open>\<open>s in t\<close> on strings: \<open>s\<close> occurs in \<open>t\<close> as a contiguous substring.\<close>

fun contains :: "string \<Rightarrow> string \<Rightarrow> bool" where
  "contains [] s = prefix s []"
| "contains (c # cs) s = (prefix s (c # cs) \<or> contains cs s)"

text \<open>\<open>str.split()\<close> without arguments: the maximal runs of non-whitespace characters.\<close>

fun words_acc :: "string \<Rightarrow> string \<Rightarrow> string list" where
  "words_acc w [] = (if w = [] then [] else [w])"
| "words_acc w (c # cs) =
     (if is_space c then (if w = [] then words_acc [] cs else w # words_acc [] cs)
      else words_acc (w @ [c]) cs)"

definition split :: "string \<Rightarrow> string list" where
  "split t = words_acc [] t"

text \<open>\<open>str(n)\<close> for an integer: its decimal numeral.\<close>

definition digit_char :: "nat \<Rightarrow> char" where
  "digit_char d = char_of (48 + d)"

function str_nat :: "nat \<Rightarrow> string" where
  "str_nat n = (if n < 10 then [digit_char n] else str_nat (n div 10) @ [digit_char (n mod 10)])"
  by pat_completeness auto
termination
  by (relation "measure id") auto

declare str_nat.simps [simp del]


subsection \<open>The fragment of \<open>re\<close> the classifiers use\<close>

text \<open>
  The patterns of \<open>is_question\<close> and \<open>detect_action_item\<close> are built from alternations of
  literals, concatenation, \<open>\b\<close>, \<open>\s+\<close>, \<open>\w+\<close> and \<open>.+\<close>.  A position in the subject is
  the character before it (if any) and the text after it; \<open>rmatch\<close> lists every position
  at which a match starting at the given position can end, and \<open>re_search\<close> tries every
  start position, as \<open>re.search\<close> does.
\<close>

datatype regex =
    OneOf "string list"
  | Cat regex regex
  | WordBoundary
  | Spaces
  | WordChars
  | AnyChars

type_synonym position = "char option \<times> string"

fun run_ends :: "(char \<Rightarrow> bool) \<Rightarrow> string \<Rightarrow> position list" where
  "run_ends P [] = []"
| "run_ends P (c # cs) = (if P c then (Some c, cs) # run_ends P cs else [])"

definition literal_at :: "position \<Rightarrow> string \<Rightarrow> position list" where
  "literal_at pos s =
     (if prefix s (snd pos)
      then [(if s = [] then fst pos else Some (last s), drop (length s) (snd pos))]
      else [])"

definition word_before :: "position \<Rightarrow> bool" where
  "word_before pos = (case fst pos of None \<Rightarrow> False | Some c \<Rightarrow> is_word_char c)"

definition word_after :: "position \<Rightarrow> bool" where
  "word_after pos = (case snd pos of [] \<Rightarrow> False | c # _ \<Rightarrow> is_word_char c)"

fun rmatch :: "regex \<Rightarrow> position \<Rightarrow> position list" where
  "rmatch (OneOf ws) pos = concat (map (literal_at pos) ws)"
| "rmatch (Cat a b) pos = concat (map (rmatch b) (rmatch a pos))"
| "rmatch WordBoundary pos = (if word_before pos \<noteq> word_after pos then [pos] else [])"
| "rmatch Spaces pos = run_ends is_space (snd pos)"
| "rmatch WordChars pos = run_ends is_word_char (snd pos)"
| "rmatch AnyChars pos = run_ends (\<lambda>c. c \<noteq> CHR 0x0A) (snd pos)"

fun search_from :: "regex \<Rightarrow> char option \<Rightarrow> string \<Rightarrow> bool" where
  "search_from r p [] = (rmatch r (p, []) \<noteq> [])"
| "search_from r p (c # cs) = (rmatch r (p, c # cs) \<noteq> [] \<or> search_from r (Some c) cs)"

definition re_search :: "regex \<Rightarrow> string \<Rightarrow> bool" where
  "re_search r t = search_from r None t"

fun cats :: "regex list \<Rightarrow> regex" where
  "cats [] = OneOf [[]]"
| "cats [r] = r"
| "cats (r # rs) = Cat r (cats rs)"

section \<open>Utterance classifiers of \<open>MeetingStore\<close>\<close>

definition question_starters :: "string list" where
  "question_starters =
     [''what'', ''where'', ''when'', ''why'', ''who'', ''how'', ''is'', ''are'', ''can'',
      ''could'', ''would'', ''should'', ''will'', ''do'', ''does'', ''did'', ''have'',
      ''has'', ''am'', ''was'', ''were'']"

definition question_patterns :: "regex list" where
  "question_patterns =
     [cats [WordBoundary, OneOf [''what'', ''where'', ''when'', ''why'', ''how'', ''who''], Spaces,
            OneOf [''is'', ''are'', ''was'', ''were'', ''do'', ''does'', ''did'', ''can'',
                   ''could'', ''would'']],
      cats [WordBoundary, OneOf [''can you'', ''could you'', ''would you'', ''will you''], Spaces,
            WordChars],
      cats [WordBoundary,
            OneOf [''let me know'', ''tell me'', ''i'' @ [CHR 0x27] @ ''m wondering'',
                   ''i was wondering''],
            WordBoundary],
      cats [WordBoundary, OneOf [''any idea'', ''do you know'', ''have you heard''],
            WordBoundary]]"

definition is_question :: "string \<Rightarrow> bool" where
  "is_question text0 =
     (let text = strip text0; text_lower = lower text
      in if endswith text ''?'' then True
         else if (case split text_lower of [] \<Rightarrow> False | w # _ \<Rightarrow> w \<in> set question_starters)
           then True
         else list_ex (\<lambda>pattern. re_search pattern text_lower) question_patterns)"

definition decision_indicators :: "string list" where
  "decision_indicators =
     [''decided'', ''decision'', ''agreed'', ''conclusion'', ''finalized'', ''resolved'',
      ''approved'', ''confirmed'', ''consensus'', ''settled on'', ''moving forward with'',
      ''we will'', ''let'' @ [CHR 0x27] @ ''s go with'', ''approved'']"

definition detect_decision :: "string \<Rightarrow> bool" where
  "detect_decision text = list_ex (\<lambda>ind. contains (lower text) ind) decision_indicators"

definition assign_patterns :: "regex list" where
  "assign_patterns =
     [cats [OneOf [''i will'', ''i'' @ [CHR 0x27] @ ''ll'', ''i am going to'',
                   ''i'' @ [CHR 0x27] @ ''m going to''], Spaces, AnyChars],
      cats [OneOf [''let me'', ''i can'', ''i should''], Spaces, AnyChars],
      cats [OneOf [''will you'', ''can you'', ''could you''], Spaces, AnyChars],
      OneOf [''action item'', ''todo'', ''task'', ''follow up'', ''follow-up'']]"

definition deadline_words :: "string list" where
  "deadline_words =
     [''by tomorrow'', ''by friday'', ''by monday'', ''by next'', ''by the end of'', ''asap'',
      ''soon'', ''this week'', ''next week'']"

text \<open>The second parameter of \<open>detect_action_item\<close> (the speaker) is not read by the source.\<close>

definition detect_action_item :: "string \<Rightarrow> bool" where
  "detect_action_item text =
     (let text_lower = lower text
      in if list_ex (\<lambda>pattern. re_search pattern text_lower) assign_patterns then True
         else list_ex (\<lambda>d. contains text_lower d) deadline_words)"

section \<open>The session state\<close>

text \<open>
  Numbers arriving as JSON (pitch, pace, energy) and the arithmetic on them are modelled
  by exact rationals.  A \<open>datetime\<close>, and the ISO string \<open>isoformat()\<close> makes of it, is
  modelled by the instant it denotes, in microseconds.  The speaker id
  \<open>f"speaker_{uuid.uuid4().hex[:8]}"\<close> is modelled by \<open>Speaker h\<close> with \<open>h\<close> the eight
  hexadecimal digits; such a string is never empty, so the test \<open>if best_match:\<close> is the
  test that \<open>best_match\<close> is not \<open>None\<close>.
\<close>

type_synonym datetime = int

datatype speaker_id = Speaker string

datatype error = KeyError

text \<open>The \<open>voice_features\<close> dict: a key that is absent is \<open>None\<close>.\<close>

record features =
  vf_avg_pitch :: "rat option"
  vf_words_per_minute :: "rat option"
  vf_energy :: "rat option"
  vf_channel :: "string option"

text \<open>\<open>d.get(key, default)\<close> on such a key.\<close>

definition get_or :: "'a \<Rightarrow> 'a option \<Rightarrow> 'a" where
  "get_or d x = (case x of None \<Rightarrow> d | Some v \<Rightarrow> v)"

text \<open>A value of the \<open>participants\<close> dict; every profile is created with all nine keys.\<close>

record profile =
  p_name :: string
  p_avg_pitch :: rat
  p_avg_pace :: rat
  p_avg_energy :: rat
  p_voice_id :: speaker_id
  p_audio_source :: string
  p_is_remote :: bool
  p_samples_count :: nat
  p_first_seen :: datetime

datatype entry_type = Statement | Question | Answer

record entry_features =
  ef_pitch :: "rat option"
  ef_pace :: "rat option"
  ef_energy :: "rat option"

text \<open>
  A transcript entry.  The keys \<open>is_decision\<close> and \<open>is_action_item\<close> are only ever set
  to \<open>True\<close> and only read through \<open>get\<close>, so an absent key is \<open>False\<close>.
\<close>

record entry =
  e_timestamp :: datetime
  e_speaker_id :: speaker_id
  e_speaker_name :: string
  e_text :: string
  e_type :: entry_type
  e_audio_source :: string
  e_is_remote :: bool
  e_voice_features :: entry_features
  e_question_id :: "nat option"
  e_answers_question :: "nat option"
  e_is_decision :: bool
  e_is_action_item :: bool
  e_assignee :: "string option"

record pending_question =
  q_index :: nat
  q_timestamp :: datetime
  q_speaker :: speaker_id

text \<open>
  \<open>MeetingStore\<close>.  The \<open>participants\<close> dict keeps insertion order, so it is an
  association list: \<open>map_of\<close> reads a key, \<open>AList.update\<close> writes one (in place when the
  key exists, at the end otherwise).
\<close>

record store =
  meeting_type :: string
  participants :: "(speaker_id \<times> profile) list"
  speaker_counter :: nat
  transcript :: "entry list"
  unanswered_questions :: "pending_question list"
  start_time :: "datetime option"
  end_time :: "datetime option"
  meeting_title :: string
  audio_sources :: "string set"

text \<open>What a call reads from outside the store: the fresh uuid digits and the clock.\<close>

record environment =
  uuid_hex :: string
  now :: datetime

definition init_store :: "string \<Rightarrow> string \<Rightarrow> store" where
  "init_store mtype title =
     \<lparr>meeting_type = mtype, participants = [], speaker_counter = 0, transcript = [],
      unanswered_questions = [], start_time = None, end_time = None,
      meeting_title = title, audio_sources = {}\<rparr>"

section \<open>\<open>get_or_create_speaker\<close>\<close>

definition score :: "profile \<Rightarrow> features \<Rightarrow> rat" where
  "score data vf =
     (let pitch_diff = \<bar>p_avg_pitch data - get_or 0 (vf_avg_pitch vf)\<bar>;
          pace_diff = \<bar>p_avg_pace data - get_or 0 (vf_words_per_minute vf)\<bar> / 10;
          energy_diff = \<bar>p_avg_energy data - get_or 0 (vf_energy vf)\<bar> / 50
      in (pitch_diff * 0.5) + (pace_diff * 0.3) + (energy_diff * 0.2))"

definition threshold :: "store \<Rightarrow> rat" where
  "threshold s = (if meeting_type s = ''hybrid'' then 25 else 20)"

text \<open>\<open>score < best_score\<close>, where \<open>None\<close> is the initial \<open>float('inf')\<close>.\<close>

definition below :: "rat \<Rightarrow> rat option \<Rightarrow> bool" where
  "below sc best_score = (case best_score of None \<Rightarrow> True | Some b \<Rightarrow> sc < b)"

text \<open>The loop over \<open>search_space\<close>, carrying \<open>best_match\<close> and \<open>best_score\<close>.\<close>

fun find_best ::
  "rat \<Rightarrow> features \<Rightarrow> (speaker_id \<times> profile) list \<Rightarrow> speaker_id option \<times> rat option
   \<Rightarrow> speaker_id option \<times> rat option" where
  "find_best thr vf [] acc = acc"
| "find_best thr vf ((sid, data) # rest) (best_match, best_score) =
     (if score data vf < thr \<and> below (score data vf) best_score
      then find_best thr vf rest (Some sid, Some (score data vf))
      else find_best thr vf rest (best_match, best_score))"

definition best_match_of :: "store \<Rightarrow> features \<Rightarrow> speaker_id option" where
  "best_match_of s vf = fst (find_best (threshold s) vf (participants s) (None, None))"

definition remote_sources :: "string list" where
  "remote_sources = [''tab_audio'', ''system_audio'', ''screen_share'']"

definition get_or_create_speaker ::
  "store \<Rightarrow> features \<Rightarrow> string \<Rightarrow> environment \<Rightarrow> error + (speaker_id \<times> store)" where
  "get_or_create_speaker s vf audio_source env =
     (case best_match_of s vf of
        Some best_match \<Rightarrow>
          (let old_count = length (filter (\<lambda>t. e_speaker_id t = best_match) (transcript s))
           in case map_of (participants s) best_match of
                None \<Rightarrow> Inl KeyError
              | Some speaker_data \<Rightarrow>
                  (let alpha = (0.3 :: rat);
                       speaker_data' = speaker_data
                         \<lparr>p_avg_pitch := alpha * get_or 100 (vf_avg_pitch vf)
                                           + (1 - alpha) * p_avg_pitch speaker_data,
                          p_avg_pace := alpha * get_or 120 (vf_words_per_minute vf)
                                          + (1 - alpha) * p_avg_pace speaker_data,
                          p_samples_count := old_count + 1\<rparr>
                   in Inr (best_match,
                           s\<lparr>participants :=
                                AList.update best_match speaker_data' (participants s)\<rparr>)))
      | None \<Rightarrow>
          (let counter = speaker_counter s + 1;
               speaker_id = Speaker (uuid_hex env);
               is_remote = (audio_source \<in> set remote_sources);
               new_profile =
                 \<lparr>p_name = ''Participant '' @ str_nat counter
                            @ (if is_remote then '' (Remote)'' else []),
                  p_avg_pitch = get_or 100 (vf_avg_pitch vf),
                  p_avg_pace = get_or 120 (vf_words_per_minute vf),
                  p_avg_energy = get_or 5000 (vf_energy vf),
                  p_voice_id = speaker_id,
                  p_audio_source = audio_source,
                  p_is_remote = is_remote,
                  p_samples_count = 1,
                  p_first_seen = now env\<rparr>
           in Inr (speaker_id,
                   s\<lparr>speaker_counter := counter,
                     participants := AList.update speaker_id new_profile (participants s)\<rparr>)))"

section \<open>\<open>add_utterance\<close>\<close>

definition answer_starters :: "string list" where
  "answer_starters =
     [''yes'', ''no'', ''absolutely'', ''definitely'', ''correct'', ''right'', ''exactly'',
      ''sure'', ''well'', ''i think'', ''in my opinion'']"

text \<open>
  The classification part of \<open>add_utterance\<close> (from \<open>if self.is_question(text)\<close> to the
  \<open>pop\<close>): it sets the entry's type and links, and pushes to or pops from the list of
  unanswered questions.  \<open>n\<close> is \<open>len(self.transcript)\<close>.
\<close>

definition thread_utterance ::
  "string \<Rightarrow> speaker_id \<Rightarrow> datetime \<Rightarrow> nat \<Rightarrow> pending_question list \<Rightarrow> entry
   \<Rightarrow> entry \<times> pending_question list" where
  "thread_utterance text sid t n pending entry =
     (if is_question text
      then (entry\<lparr>e_type := Question, e_question_id := Some n\<rparr>,
            pending @ [\<lparr>q_index = n, q_timestamp = t, q_speaker = sid\<rparr>])
      else if pending \<noteq> []
      then (let last_q = last pending;
                time_since_q = int n - int (q_index last_q);
                is_answer = (time_since_q \<le> 4 \<and> q_speaker last_q \<noteq> sid
                             \<and> \<not> endswith text ''?'');
                is_answer = (if list_ex (\<lambda>starter. startswith (lower text) starter)
                                  answer_starters
                             then True else is_answer)
            in if is_answer
               then (entry\<lparr>e_type := Answer, e_answers_question := Some (q_index last_q)\<rparr>,
                     if time_since_q \<ge> 2 \<or> endswith text ''.'' \<or> length text > 100
                     then butlast pending else pending)
               else (entry, pending))
      else (entry, pending))"

definition add_utterance ::
  "store \<Rightarrow> string \<Rightarrow> features \<Rightarrow> string \<Rightarrow> environment \<Rightarrow> error + (entry \<times> store)" where
  "add_utterance s text vf audio_source env =
     (case get_or_create_speaker s vf audio_source env of
        Inl e \<Rightarrow> Inl e
      | Inr (speaker_id, s1) \<Rightarrow>
          (case map_of (participants s1) speaker_id of
             None \<Rightarrow> Inl KeyError
           | Some speaker_data \<Rightarrow>
               (let entry =
                      \<lparr>e_timestamp = now env,
                       e_speaker_id = speaker_id,
                       e_speaker_name = p_name speaker_data,
                       e_text = text,
                       e_type = Statement,
                       e_audio_source = audio_source,
                       e_is_remote = p_is_remote speaker_data,
                       e_voice_features =
                         \<lparr>ef_pitch = vf_avg_pitch vf, ef_pace = vf_words_per_minute vf,
                          ef_energy = vf_energy vf\<rparr>,
                       e_question_id = None,
                       e_answers_question = None,
                       e_is_decision = False,
                       e_is_action_item = False,
                       e_assignee = None\<rparr>;
                    (entry, pending) =
                      thread_utterance text speaker_id (now env) (length (transcript s1))
                        (unanswered_questions s1) entry;
                    entry = (if detect_decision text then entry\<lparr>e_is_decision := True\<rparr>
                             else entry);
                    entry = (if detect_action_item text
                             then entry\<lparr>e_is_action_item := True,
                                        e_assignee := Some (p_name speaker_data)\<rparr>
                             else entry)
                in Inr (entry,
                        s1\<lparr>unanswered_questions := pending,
                           transcript := transcript s1 @ [entry],
                           audio_sources := insert audio_source (audio_sources s1)\<rparr>))))"

section \<open>\<open>calculate_duration\<close> and \<open>get_minutes_structure\<close>\<close>





text \<open>
  The two passes over the transcript are modelled on indices: where the source appends
  the entry \<open>self.transcript[j]\<close> to a list, the model appends \<open>j\<close>, and
  \<open>get_minutes_structure\<close> below reads the entries back.  \<open>used_indices\<close> is the source's
  own set.
\<close>

record qa_indices =
  qi_question :: nat
  qi_answers :: "nat list"
  qi_follow_up_questions :: "nat list"

text \<open>The \<open>while j < len(self.transcript)\<close> loop of the group opened at index \<open>i\<close>.\<close>

function scan_answers ::
  "entry list \<Rightarrow> nat \<Rightarrow> nat \<Rightarrow> qa_indices \<Rightarrow> nat set \<Rightarrow> qa_indices \<times> nat set" where
  "scan_answers tr i j qa used_indices =
     (if j < length tr
      then (if e_answers_question (tr ! j) = Some i
            then scan_answers tr i (j + 1) (qa\<lparr>qi_answers := qi_answers qa @ [j]\<rparr>)
                   (insert j used_indices)
            else if e_type (tr ! j) = Question \<and> j < length tr - 1
            then (if e_speaker_id (tr ! j) = e_speaker_id (tr ! i)
                  then (qa\<lparr>qi_follow_up_questions := qi_follow_up_questions qa @ [j]\<rparr>,
                        insert j used_indices)
                  else (qa, used_indices))
            else (qa, used_indices))
      else (qa, used_indices))"
  by pat_completeness auto
termination
  by (relation "measure (\<lambda>(tr, i, j, qa, used_indices). length tr - j)") auto

declare scan_answers.simps [simp del]

text \<open>One iteration of the first \<open>for i, entry in enumerate(self.transcript)\<close>.\<close>

definition qa_step ::
  "entry list \<Rightarrow> qa_indices list \<times> nat set \<Rightarrow> nat \<Rightarrow> qa_indices list \<times> nat set" where
  "qa_step tr acc i =
     (if e_type (tr ! i) = Question
      then (let r = scan_answers tr i (i + 1)
                      \<lparr>qi_question = i, qi_answers = [], qi_follow_up_questions = []\<rparr>
                      (insert i (snd acc))
            in (fst acc @ [fst r], snd r))
      else acc)"

definition collect_qa :: "entry list \<Rightarrow> qa_indices list \<times> nat set" where
  "collect_qa tr = foldl (qa_step tr) ([], {}) [0..<length tr]"

record buckets =
  b_decisions :: "nat list"
  b_action_items :: "nat list"
  b_key_discussion_points :: "nat list"

text \<open>One iteration of the second \<open>for i, entry in enumerate(self.transcript)\<close>.\<close>

definition bucket_step :: "entry list \<Rightarrow> nat set \<Rightarrow> buckets \<Rightarrow> nat \<Rightarrow> buckets" where
  "bucket_step tr used_indices b i =
     (if i \<in> used_indices then b
      else if e_is_decision (tr ! i) then b\<lparr>b_decisions := b_decisions b @ [i]\<rparr>
      else if e_is_action_item (tr ! i) then b\<lparr>b_action_items := b_action_items b @ [i]\<rparr>
      else if e_type (tr ! i) = Statement \<and> length (e_text (tr ! i)) > 50
      then b\<lparr>b_key_discussion_points := b_key_discussion_points b @ [i]\<rparr>
      else b)"

definition collect_buckets :: "entry list \<Rightarrow> nat set \<Rightarrow> buckets" where
  "collect_buckets tr used_indices =
     foldl (bucket_step tr used_indices)
       \<lparr>b_decisions = [], b_action_items = [], b_key_discussion_points = []\<rparr>
       [0..<length tr]"

record qa_pair =
  qa_question :: entry
  qa_answers :: "entry list"
  qa_follow_up_questions :: "entry list"


definition qa_entries :: "entry list \<Rightarrow> qa_indices \<Rightarrow> qa_pair" where
  "qa_entries tr qa =
     \<lparr>qa_question = tr ! qi_question qa,
      qa_answers = map (\<lambda>j. tr ! j) (qi_answers qa),
      qa_follow_up_questions = map (\<lambda>j. tr ! j) (qi_follow_up_questions qa)\<rparr>"


text \<open>A sequence of \<open>add_utterance\<close> calls, stopping at the first error.\<close>

type_synonym call = "string \<times> features \<times> string \<times> environment"

fun run_calls :: "store \<Rightarrow> call list \<Rightarrow> error + store" where
  "run_calls s [] = Inr s"
| "run_calls s ((text, vf, audio_source, env) # cs) =
     (case add_utterance s text vf audio_source env of
        Inl e \<Rightarrow> Inl e
      | Inr (entry, s') \<Rightarrow> run_calls s' cs)"

section \<open>Auxiliary definitions\<close>

definition smoothed :: "profile \<Rightarrow> features \<Rightarrow> nat \<Rightarrow> profile" where
  "smoothed p vf old_count =
     p\<lparr>p_avg_pitch := 0.3 * get_or 100 (vf_avg_pitch vf) + (1 - 0.3) * p_avg_pitch p,
       p_avg_pace := 0.3 * get_or 120 (vf_words_per_minute vf) + (1 - 0.3) * p_avg_pace p,
       p_samples_count := old_count + 1\<rparr>"

definition created :: "store \<Rightarrow> features \<Rightarrow> string \<Rightarrow> environment \<Rightarrow> profile" where
  "created s vf a env =
     \<lparr>p_name = ''Participant '' @ str_nat (speaker_counter s + 1)
                @ (if a \<in> set remote_sources then '' (Remote)'' else []),
      p_avg_pitch = get_or 100 (vf_avg_pitch vf),
      p_avg_pace = get_or 120 (vf_words_per_minute vf),
      p_avg_energy = get_or 5000 (vf_energy vf),
      p_voice_id = Speaker (uuid_hex env),
      p_audio_source = a,
      p_is_remote = (a \<in> set remote_sources),
      p_samples_count = 1,
      p_first_seen = now env\<rparr>"

definition flagged :: "string \<Rightarrow> profile \<Rightarrow> entry \<Rightarrow> entry" where
  "flagged text p e =
     (let e1 = (if detect_decision text then e\<lparr>e_is_decision := True\<rparr> else e)
      in if detect_action_item text
         then e1\<lparr>e_is_action_item := True, e_assignee := Some (p_name p)\<rparr> else e1)"

definition fresh_entry :: "speaker_id \<Rightarrow> profile \<Rightarrow> string \<Rightarrow> features \<Rightarrow> string \<Rightarrow> environment \<Rightarrow> entry" where
  "fresh_entry sid p text vf a env =
     \<lparr>e_timestamp = now env, e_speaker_id = sid, e_speaker_name = p_name p, e_text = text,
      e_type = Statement, e_audio_source = a, e_is_remote = p_is_remote p,
      e_voice_features = \<lparr>ef_pitch = vf_avg_pitch vf, ef_pace = vf_words_per_minute vf,
                          ef_energy = vf_energy vf\<rparr>,
      e_question_id = None, e_answers_question = None, e_is_decision = False,
      e_is_action_item = False, e_assignee = None\<rparr>"

section \<open>Example sessions\<close>

definition features_a :: features where
  "features_a = \<lparr>vf_avg_pitch = Some 100, vf_words_per_minute = Some 120,
                  vf_energy = Some 5000, vf_channel = Some ''mono''\<rparr>"

definition features_b :: features where
  "features_b = \<lparr>vf_avg_pitch = Some 200, vf_words_per_minute = Some 150,
                  vf_energy = Some 5000, vf_channel = Some ''mono''\<rparr>"

definition env_a :: environment where
  "env_a = \<lparr>uuid_hex = ''0000000a'', now = 0\<rparr>"

definition env_b :: environment where
  "env_b = \<lparr>uuid_hex = ''0000000b'', now = 1000000\<rparr>"

definition new_session :: store where
  "new_session = (init_store ''physical'' ''Meeting'')\<lparr>start_time := Some 0\<rparr>"

text \<open>The session after speaker A has asked a question.\<close>

definition question_call :: call where
  "question_call = (''What is the deadline?'', features_a, ''microphone'', env_a)"

definition entry_question :: entry where
  "entry_question =
     \<lparr>e_timestamp = 0, e_speaker_id = Speaker ''0000000a'', e_speaker_name = ''Participant 1'',
      e_text = ''What is the deadline?'', e_type = Question, e_audio_source = ''microphone'',
      e_is_remote = False,
      e_voice_features = \<lparr>ef_pitch = Some 100, ef_pace = Some 120, ef_energy = Some 5000\<rparr>,
      e_question_id = Some 0, e_answers_question = None, e_is_decision = False,
      e_is_action_item = False, e_assignee = None\<rparr>"

definition profile_a :: profile where
  "profile_a =
     \<lparr>p_name = ''Participant 1'', p_avg_pitch = 100, p_avg_pace = 120,
      p_avg_energy = 5000, p_voice_id = Speaker ''0000000a'',
      p_audio_source = ''microphone'', p_is_remote = False, p_samples_count = 1,
      p_first_seen = 0\<rparr>"

definition profile_b :: profile where
  "profile_b =
     \<lparr>p_name = ''Participant 2 (Remote)'', p_avg_pitch = 200, p_avg_pace = 150,
      p_avg_energy = 5000, p_voice_id = Speaker ''0000000b'',
      p_audio_source = ''tab_audio'', p_is_remote = True, p_samples_count = 1,
      p_first_seen = 1000000\<rparr>"

definition session_asked :: store where
  "session_asked =
     \<lparr>meeting_type = ''physical'',
      participants =
        [(Speaker ''0000000a'', profile_a)],
      speaker_counter = 1,
      transcript = [entry_question],
      unanswered_questions =
        [\<lparr>q_index = 0, q_timestamp = 0, q_speaker = Speaker ''0000000a''\<rparr>],
      start_time = Some 0, end_time = None, meeting_title = ''Meeting'',
      audio_sources = {''microphone''}\<rparr>"

text \<open>Then speaker B, on a shared tab, says something that is not a question.\<close>

definition entry_sky :: entry where
  "entry_sky =
     \<lparr>e_timestamp = 1000000, e_speaker_id = Speaker ''0000000b'',
      e_speaker_name = ''Participant 2 (Remote)'', e_text = ''The sky is blue'',
      e_type = Answer, e_audio_source = ''tab_audio'', e_is_remote = True,
      e_voice_features = \<lparr>ef_pitch = Some 200, ef_pace = Some 150, ef_energy = Some 5000\<rparr>,
      e_question_id = None, e_answers_question = Some 0, e_is_decision = False,
      e_is_action_item = False, e_assignee = None\<rparr>"

definition session_answered :: store where
  "session_answered =
     \<lparr>meeting_type = ''physical'',
      participants =
        [(Speaker ''0000000a'', profile_a),
         (Speaker ''0000000b'', profile_b)],
      speaker_counter = 2,
      transcript = [entry_question, entry_sky],
      unanswered_questions =
        [\<lparr>q_index = 0, q_timestamp = 0, q_speaker = Speaker ''0000000a''\<rparr>],
      start_time = Some 0, end_time = None, meeting_title = ''Meeting'',
      audio_sources = {''tab_audio'', ''microphone''}\<rparr>"

text \<open>
  A session in which A asks, A goes on with a remark of their own, and B then answers:
  the remark is a statement, B's utterance is an answer to question 0.
\<close>

definition aside_calls :: "call list" where
  "aside_calls =
     [question_call,
      (''Let us see'', features_a, ''microphone'', env_a),
      (''It is Friday'', features_b, ''tab_audio'', env_b)]"

definition entry_aside :: entry where
  "entry_aside =
     \<lparr>e_timestamp = 0, e_speaker_id = Speaker ''0000000a'', e_speaker_name = ''Participant 1'',
      e_text = ''Let us see'', e_type = Statement, e_audio_source = ''microphone'',
      e_is_remote = False,
      e_voice_features = \<lparr>ef_pitch = Some 100, ef_pace = Some 120, ef_energy = Some 5000\<rparr>,
      e_question_id = None, e_answers_question = None, e_is_decision = False,
      e_is_action_item = False, e_assignee = None\<rparr>"

definition entry_friday :: entry where
  "entry_friday =
     \<lparr>e_timestamp = 1000000, e_speaker_id = Speaker ''0000000b'',
      e_speaker_name = ''Participant 2 (Remote)'', e_text = ''It is Friday'',
      e_type = Answer, e_audio_source = ''tab_audio'', e_is_remote = True,
      e_voice_features = \<lparr>ef_pitch = Some 200, ef_pace = Some 150, ef_energy = Some 5000\<rparr>,
      e_question_id = None, e_answers_question = Some 0, e_is_decision = False,
      e_is_action_item = False, e_assignee = None\<rparr>"

definition transcript_aside :: "entry list" where
  "transcript_aside = [entry_question, entry_aside, entry_friday]"

text \<open>A session in which A asks two questions in a row and B answers the second.\<close>

definition follow_up_calls :: "call list" where
  "follow_up_calls =
     [question_call,
      (''And who owns it?'', features_a, ''microphone'', env_a),
      (''Nobody'', features_b, ''tab_audio'', env_b)]"

definition entry_owner :: entry where
  "entry_owner =
     \<lparr>e_timestamp = 0, e_speaker_id = Speaker ''0000000a'', e_speaker_name = ''Participant 1'',
      e_text = ''And who owns it?'', e_type = Question, e_audio_source = ''microphone'',
      e_is_remote = False,
      e_voice_features = \<lparr>ef_pitch = Some 100, ef_pace = Some 120, ef_energy = Some 5000\<rparr>,
      e_question_id = Some 1, e_answers_question = None, e_is_decision = False,
      e_is_action_item = False, e_assignee = None\<rparr>"

definition entry_nobody :: entry where
  "entry_nobody =
     \<lparr>e_timestamp = 1000000, e_speaker_id = Speaker ''0000000b'',
      e_speaker_name = ''Participant 2 (Remote)'', e_text = ''Nobody'',
      e_type = Answer, e_audio_source = ''tab_audio'', e_is_remote = True,
      e_voice_features = \<lparr>ef_pitch = Some 200, ef_pace = Some 150, ef_energy = Some 5000\<rparr>,
      e_question_id = None, e_answers_question = Some 1, e_is_decision = False,
      e_is_action_item = False, e_assignee = None\<rparr>"

definition transcript_follow_up :: "entry list" where
  "transcript_follow_up = [entry_question, entry_owner, entry_nobody]"

text \<open>A feature object without pitch, pace and energy, and two utterances that carry it.\<close>

definition no_features :: features where
  "no_features = \<lparr>vf_avg_pitch = None, vf_words_per_minute = None, vf_energy = None,
                   vf_channel = Some ''mono''\<rparr>"

definition silent_calls :: "call list" where
  "silent_calls =
     [(''Good morning'', no_features, ''microphone'', env_a),
      (''Good morning again'', no_features, ''microphone'', env_b)]"

text \<open>Speaker A again, a little higher, faster and louder than the profile.\<close>

definition features_c :: features where
  "features_c = \<lparr>vf_avg_pitch = Some 110, vf_words_per_minute = Some 130,
                  vf_energy = Some 5100, vf_channel = Some ''mono''\<rparr>"

section \<open>Sessions of the program\<close>

text \<open>
  The stores the program can hold: \<open>MeetingStore(...)\<close> as constructed, then any sequence
  of the three mutations the source performs (the start route sets \<open>start_time\<close>, the stop
  route sets \<open>end_time\<close>, the audio route calls \<open>add_utterance\<close>).
\<close>

inductive reachable :: "store \<Rightarrow> bool" where
  constructed: "reachable (init_store mtype title)"
| started: "reachable s \<Longrightarrow> reachable (s\<lparr>start_time := Some t\<rparr>)"
| stopped: "reachable s \<Longrightarrow> reachable (s\<lparr>end_time := Some t\<rparr>)"
| appended: "reachable s \<Longrightarrow> add_utterance s text vf a env = Inr (entry, s') \<Longrightarrow> reachable s'"

text \<open>Every answer link points back to a question that carries its own index.\<close>

definition links_ok :: "entry list \<Rightarrow> bool" where
  "links_ok tr =
     (\<forall>j < length tr. \<forall>k. e_answers_question (tr ! j) = Some k \<longrightarrow>
        k < j \<and> e_type (tr ! k) = Question \<and> e_question_id (tr ! k) = Some k)"

text \<open>Every unanswered question refers to a question of the transcript.\<close>

definition pending_ok :: "entry list \<Rightarrow> pending_question list \<Rightarrow> bool" where
  "pending_ok tr pending =
     (\<forall>q \<in> set pending. q_index q < length tr \<and> e_type (tr ! q_index q) = Question
        \<and> e_question_id (tr ! q_index q) = Some (q_index q))"

section \<open>Notions for the minutes\<close>

text \<open>How many entries in a row, from index \<open>j\<close> on, carry \<open>answers_question = i\<close>.\<close>

definition answer_run :: "entry list \<Rightarrow> nat \<Rightarrow> nat \<Rightarrow> nat" where
  "answer_run tr i j = length (takeWhile (\<lambda>e. e_answers_question e = Some i) (drop j tr))"

text \<open>
  The follow-up recorded when the scan of group \<open>i\<close> stops at index \<open>k\<close>: a question by
  the asker of \<open>i\<close> that is not the last entry.
\<close>

definition follow_up_at :: "entry list \<Rightarrow> nat \<Rightarrow> nat \<Rightarrow> nat list" where
  "follow_up_at tr i k =
     (if k < length tr \<and> e_type (tr ! k) = Question \<and> k < length tr - 1
         \<and> e_speaker_id (tr ! k) = e_speaker_id (tr ! i)
      then [k] else [])"

definition group_at :: "entry list \<Rightarrow> nat \<Rightarrow> qa_indices" where
  "group_at tr i =
     \<lparr>qi_question = i,
      qi_answers = [i + 1..<i + 1 + answer_run tr i (i + 1)],
      qi_follow_up_questions = follow_up_at tr i (i + 1 + answer_run tr i (i + 1))\<rparr>"

text \<open>The transcript indices a group holds.\<close>

definition group_indices :: "qa_indices \<Rightarrow> nat set" where
  "group_indices g =
     insert (qi_question g) (set (qi_answers g) \<union> set (qi_follow_up_questions g))"

definition qa_indices_of :: "entry list \<Rightarrow> nat set" where
  "qa_indices_of tr = \<Union> (set (map group_indices (fst (collect_qa tr))))"

text \<open>
  The forward scan as the specification words it: from the entry after question \<open>i\<close>,
  collect every entry whose \<open>answers_question\<close> is \<open>i\<close>, pass over an entry that neither
  answers \<open>i\<close> nor is a question, and stop at a question or at the end.
\<close>

fun spec_scan :: "nat \<Rightarrow> nat \<Rightarrow> entry list \<Rightarrow> nat list" where
  "spec_scan i j [] = []"
| "spec_scan i j (e # es) =
     (if e_answers_question e = Some i then j # spec_scan i (j + 1) es
      else if e_type e = Question then []
      else spec_scan i (j + 1) es)"

definition spec_answers :: "entry list \<Rightarrow> nat \<Rightarrow> nat list" where
  "spec_answers tr i = spec_scan i (i + 1) (drop (i + 1) tr)"

section \<open>Sessions in which every drawn uuid is new\<close>




section \<open>Basic facts about speaker resolution and appending\<close>

lemma find_best_keys:
  "find_best thr vf ps acc = (Some sid, sc) \<Longrightarrow> fst acc = Some sid \<or> sid \<in> fst ` set ps"
  by (induction thr vf ps acc rule: find_best.induct) (auto split: if_splits)

lemma best_match_of_keys:
  "best_match_of s vf = Some sid \<Longrightarrow> sid \<in> fst ` set (participants s)"
  unfolding best_match_of_def
  using find_best_keys [of "threshold s" vf "participants s" "(None, None)" sid]
  by (cases "find_best (threshold s) vf (participants s) (None, None)") auto

lemma best_match_of_lookup:
  "best_match_of s vf = Some sid \<Longrightarrow> \<exists>p. map_of (participants s) sid = Some p"
  using best_match_of_keys [of s vf sid] by (cases "map_of (participants s) sid") (auto simp: map_of_eq_None_iff)

lemma get_or_create_speaker_match:
  assumes "best_match_of s vf = Some sid" and "map_of (participants s) sid = Some p"
  shows "get_or_create_speaker s vf a env =
           Inr (sid, s\<lparr>participants := AList.update sid
                  (smoothed p vf (length (filter (\<lambda>t. e_speaker_id t = sid) (transcript s))))
                  (participants s)\<rparr>)"
  using assms by (simp add: get_or_create_speaker_def smoothed_def Let_def)

lemma get_or_create_speaker_new:
  assumes "best_match_of s vf = None"
  shows "get_or_create_speaker s vf a env =
           Inr (Speaker (uuid_hex env),
                s\<lparr>speaker_counter := speaker_counter s + 1,
                  participants := AList.update (Speaker (uuid_hex env)) (created s vf a env)
                                    (participants s)\<rparr>)"
  using assms by (simp add: get_or_create_speaker_def created_def Let_def)

lemma get_or_create_speaker_total:
  "\<exists>sid s1 p. get_or_create_speaker s vf a env = Inr (sid, s1)
      \<and> map_of (participants s1) sid = Some p
      \<and> transcript s1 = transcript s
      \<and> unanswered_questions s1 = unanswered_questions s"
proof (cases "best_match_of s vf")
  case None
  then show ?thesis
    by (simp add: get_or_create_speaker_new update_conv')
next
  case (Some sid)
  then obtain p where "map_of (participants s) sid = Some p"
    using best_match_of_lookup by blast
  with Some show ?thesis
    by (simp add: get_or_create_speaker_match update_conv')
qed

lemma add_utterance_unfold:
  assumes "get_or_create_speaker s vf a env = Inr (sid, s1)"
    and "map_of (participants s1) sid = Some p"
    and "thread_utterance text sid (now env) (length (transcript s1)) (unanswered_questions s1)
           (fresh_entry sid p text vf a env) = (e, pending)"
  shows "add_utterance s text vf a env =
           Inr (flagged text p e,
                s1\<lparr>unanswered_questions := pending,
                   transcript := transcript s1 @ [flagged text p e],
                   audio_sources := insert a (audio_sources s1)\<rparr>)"
  using assms by (simp add: add_utterance_def flagged_def fresh_entry_def Let_def)

lemma flagged_simps [simp]:
  "e_type (flagged text p e) = e_type e"
  "e_answers_question (flagged text p e) = e_answers_question e"
  "e_question_id (flagged text p e) = e_question_id e"
  "e_speaker_id (flagged text p e) = e_speaker_id e"
  by (simp_all add: flagged_def Let_def)



section \<open>The example sessions are sessions of the program\<close>

lemma session_asked_reached:
  "add_utterance new_session ''What is the deadline?'' features_a ''microphone'' env_a
     = Inr (entry_question, session_asked)"
  by code_simp

lemma session_answered_reached:
  "add_utterance session_asked ''The sky is blue'' features_b ''tab_audio'' env_b
     = Inr (entry_sky, session_answered)"
  by code_simp

lemma transcript_aside_reached:
  "map_sum id transcript (run_calls new_session aside_calls) = Inr transcript_aside"
  by code_simp

lemma transcript_follow_up_reached:
  "map_sum id transcript (run_calls new_session follow_up_calls) = Inr transcript_follow_up"
  by code_simp

lemma reachable_new_session: "reachable new_session"
  unfolding new_session_def by (intro reachable.started reachable.constructed)

lemma reachable_session_asked: "reachable session_asked"
  using reachable.appended [OF reachable_new_session session_asked_reached] .

lemma reachable_session_answered: "reachable session_answered"
  using reachable.appended [OF reachable_session_asked session_answered_reached] .



section \<open>Threading links in reachable sessions\<close>

lemma thread_utterance_links:
  assumes "thread_utterance text sid t (length tr) pending e0 = (e, pending')"
    and "e_answers_question e0 = None"
    and "links_ok tr" and "pending_ok tr pending"
  shows "links_ok (tr @ [flagged text p e]) \<and> pending_ok (tr @ [flagged text p e]) pending'"
proof -
  consider (q) "is_question text"
    | (a) "\<not> is_question text" "pending \<noteq> []" "e_type e = Answer"
          "e_answers_question e = Some (q_index (last pending))"
          "pending' = pending \<or> pending' = butlast pending"
    | (s) "\<not> is_question text" "e = e0" "pending' = pending"
    using assms(1) unfolding thread_utterance_def Let_def
    by (auto split: if_splits)
  then show ?thesis
  proof cases
    case q
    then have e: "e = e0\<lparr>e_type := Question, e_question_id := Some (length tr)\<rparr>"
      and p: "pending' = pending @ [\<lparr>q_index = length tr, q_timestamp = t, q_speaker = sid\<rparr>]"
      using assms(1) by (auto simp: thread_utterance_def)
    show ?thesis
      using assms(2-4) unfolding e p links_ok_def pending_ok_def
      by (auto simp: nth_append less_Suc_eq)
  next
    case a
    from a(2) have "last pending \<in> set pending" by simp
    with assms(4) have l: "q_index (last pending) < length tr"
      "e_type (tr ! q_index (last pending)) = Question"
      "e_question_id (tr ! q_index (last pending)) = Some (q_index (last pending))"
      by (auto simp: pending_ok_def)
    have sub: "set pending' \<subseteq> set pending"
      using a(5) by (auto dest: in_set_butlastD)
    have "links_ok (tr @ [flagged text p e])"
      using assms(3) a(4) l unfolding links_ok_def
      by (auto simp: nth_append less_Suc_eq)
    moreover have "pending_ok (tr @ [flagged text p e]) pending'"
      using assms(4) sub unfolding pending_ok_def
      by (auto simp: nth_append)
    ultimately show ?thesis by simp
  next
    case s
    have "links_ok (tr @ [flagged text p e])"
      using assms(2,3) s(2) unfolding links_ok_def
      by (auto simp: nth_append less_Suc_eq)
    moreover have "pending_ok (tr @ [flagged text p e]) pending'"
      using assms(4) s(3) unfolding pending_ok_def
      by (auto simp: nth_append)
    ultimately show ?thesis by simp
  qed
qed

lemma add_utterance_links:
  assumes "add_utterance s text vf a env = Inr (entry, s')"
    and "links_ok (transcript s)" and "pending_ok (transcript s) (unanswered_questions s)"
  shows "links_ok (transcript s') \<and> pending_ok (transcript s') (unanswered_questions s')"
proof -
  obtain sid s1 p where g: "get_or_create_speaker s vf a env = Inr (sid, s1)"
    "map_of (participants s1) sid = Some p" and tr: "transcript s1 = transcript s"
    and uq: "unanswered_questions s1 = unanswered_questions s"
    using get_or_create_speaker_total by blast
  obtain e pending where th: "thread_utterance text sid (now env) (length (transcript s1))
      (unanswered_questions s1) (fresh_entry sid p text vf a env) = (e, pending)"
    by (cases "thread_utterance text sid (now env) (length (transcript s1))
      (unanswered_questions s1) (fresh_entry sid p text vf a env)") auto
  have s': "transcript s' = transcript s @ [flagged text p e]" "unanswered_questions s' = pending"
    using add_utterance_unfold [OF g th] assms(1) tr by auto
  have "e_answers_question (fresh_entry sid p text vf a env) = None"
    by (simp add: fresh_entry_def)
  then show ?thesis
    using thread_utterance_links [OF th [unfolded tr uq] _ assms(2,3)] unfolding s' by simp
qed

lemma reachable_links:
  "reachable s \<Longrightarrow> links_ok (transcript s) \<and> pending_ok (transcript s) (unanswered_questions s)"
proof (induction rule: reachable.induct)
  case (constructed mtype title)
  show ?case by (simp add: init_store_def links_ok_def pending_ok_def)
next
  case (appended s utt vf a env entry s2)
  then show ?case using add_utterance_links by blast
qed simp_all

section \<open>What the two passes of the minutes compute\<close>

lemma answer_run_step:
  assumes "j < length tr"
  shows "answer_run tr i j =
           (if e_answers_question (tr ! j) = Some i then Suc (answer_run tr i (Suc j)) else 0)"
  using assms by (simp add: answer_run_def Cons_nth_drop_Suc [symmetric])

lemma answer_run_end: "length tr \<le> j \<Longrightarrow> answer_run tr i j = 0"
  by (simp add: answer_run_def)

lemma follow_up_at_end: "length tr \<le> k \<Longrightarrow> follow_up_at tr i k = []"
  by (simp add: follow_up_at_def)

lemma scan_answers_char:
  "scan_answers tr i j qa u =
     (qa\<lparr>qi_answers := qi_answers qa @ [j..<j + answer_run tr i j],
         qi_follow_up_questions :=
           qi_follow_up_questions qa @ follow_up_at tr i (j + answer_run tr i j)\<rparr>,
      u \<union> {j..<j + answer_run tr i j} \<union> set (follow_up_at tr i (j + answer_run tr i j)))"
proof (induction tr i j qa u rule: scan_answers.induct)
  case (1 tr i j qa u)
  show ?case
  proof (cases "j < length tr")
    case False
    then show ?thesis
      by (subst scan_answers.simps) (simp add: answer_run_end follow_up_at_end)
  next
    case True
    show ?thesis
    proof (cases "e_answers_question (tr ! j) = Some i")
      case ans: True
      have run: "answer_run tr i j = Suc (answer_run tr i (Suc j))"
        using True ans by (simp add: answer_run_step)
      have upt: "[j..<Suc (j + n)] = j # [Suc j..<Suc (j + n)]" for n
        by (simp add: upt_conv_Cons)
      have st: "{j..<Suc (j + n)} = insert j {Suc j..<Suc (j + n)}" for n
        by auto
      have step: "scan_answers tr i j qa u =
          scan_answers tr i (j + 1) (qa\<lparr>qi_answers := qi_answers qa @ [j]\<rparr>) (insert j u)"
        using True ans by (subst scan_answers.simps) simp
      show ?thesis
        unfolding step "1.IH" [OF True ans]
        by (simp add: run upt st del: upt_Suc)
    next
      case False
      have run: "answer_run tr i j = 0"
        using True False by (simp add: answer_run_step)
      show ?thesis
        using True False
        by (subst scan_answers.simps) (auto simp: run follow_up_at_def)
    qed
  qed
qed

lemma qa_step_char:
  "qa_step tr (gs, u) i =
     (if e_type (tr ! i) = Question then (gs @ [group_at tr i], u \<union> group_indices (group_at tr i))
      else (gs, u))"
proof (cases "e_type (tr ! i) = Question")
  case True
  have "insert i u \<union> {i + 1..<i + 1 + answer_run tr i (i + 1)}
          \<union> set (follow_up_at tr i (i + 1 + answer_run tr i (i + 1)))
        = u \<union> group_indices (group_at tr i)"
    by (simp add: group_indices_def group_at_def Un_assoc del: upt_Suc)
  then show ?thesis
    unfolding qa_step_def scan_answers_char using True by (simp add: group_at_def)
next
  case False
  then show ?thesis by (simp add: qa_step_def)
qed

lemma foldl_qa_step:
  "foldl (qa_step tr) (gs, u) ns =
     (gs @ map (group_at tr) (filter (\<lambda>i. e_type (tr ! i) = Question) ns),
      u \<union> \<Union> (set (map (\<lambda>i. group_indices (group_at tr i))
                        (filter (\<lambda>i. e_type (tr ! i) = Question) ns))))"
proof (induction ns arbitrary: gs u)
  case Nil
  show ?case by simp
next
  case (Cons n ns)
  show ?case
    by (simp add: qa_step_char Cons.IH Un_assoc)
qed

lemma collect_qa_char:
  "collect_qa tr =
     (map (group_at tr) (filter (\<lambda>i. e_type (tr ! i) = Question) [0..<length tr]),
      \<Union> (set (map (\<lambda>i. group_indices (group_at tr i))
                   (filter (\<lambda>i. e_type (tr ! i) = Question) [0..<length tr]))))"
  unfolding collect_qa_def foldl_qa_step by simp

lemma used_indices_char: "snd (collect_qa tr) = qa_indices_of tr"
  by (simp add: qa_indices_of_def collect_qa_char comp_def)

lemma questions_used:
  "i < length tr \<Longrightarrow> e_type (tr ! i) = Question \<Longrightarrow> i \<in> qa_indices_of tr"
  by (simp add: qa_indices_of_def collect_qa_char group_indices_def group_at_def del: upt_Suc)
    blast

lemma foldl_bucket_step:
  "foldl (bucket_step tr u) b ns =
     b\<lparr>b_decisions := b_decisions b @ filter (\<lambda>i. i \<notin> u \<and> e_is_decision (tr ! i)) ns,
       b_action_items := b_action_items b
         @ filter (\<lambda>i. i \<notin> u \<and> \<not> e_is_decision (tr ! i) \<and> e_is_action_item (tr ! i)) ns,
       b_key_discussion_points := b_key_discussion_points b
         @ filter (\<lambda>i. i \<notin> u \<and> \<not> e_is_decision (tr ! i) \<and> \<not> e_is_action_item (tr ! i)
                        \<and> e_type (tr ! i) = Statement \<and> 50 < length (e_text (tr ! i))) ns\<rparr>"
proof (induction ns arbitrary: b)
  case Nil
  show ?case by simp
next
  case (Cons n ns)
  show ?case
    by (simp only: foldl.simps Cons.IH) (simp add: bucket_step_def)
qed

lemma collect_buckets_char:
  "collect_buckets tr u =
     \<lparr>b_decisions = filter (\<lambda>i. i \<notin> u \<and> e_is_decision (tr ! i)) [0..<length tr],
      b_action_items =
        filter (\<lambda>i. i \<notin> u \<and> \<not> e_is_decision (tr ! i) \<and> e_is_action_item (tr ! i))
          [0..<length tr],
      b_key_discussion_points =
        filter (\<lambda>i. i \<notin> u \<and> \<not> e_is_decision (tr ! i) \<and> \<not> e_is_action_item (tr ! i)
                     \<and> e_type (tr ! i) = Statement \<and> 50 < length (e_text (tr ! i)))
          [0..<length tr]\<rparr>"
  unfolding collect_buckets_def foldl_bucket_step by simp

lemma map_nth_run:
  "a + n \<le> length xs \<Longrightarrow> map (\<lambda>j. xs ! j) [a..<a + n] = take n (drop a xs)"
  by (auto intro!: nth_equalityI)

lemma group_at_answers_entries:
  "map (\<lambda>j. tr ! j) (qi_answers (group_at tr i))
     = takeWhile (\<lambda>e. e_answers_question e = Some i) (drop (i + 1) tr)"
proof -
  let ?P = "\<lambda>e. e_answers_question e = Some i"
  have le: "length (takeWhile ?P (drop (i + 1) tr)) \<le> length (drop (i + 1) tr)"
    by (rule length_takeWhile_le)
  have "i + 1 + answer_run tr i (i + 1) \<le> length tr \<or> answer_run tr i (i + 1) = 0"
  proof (cases "i + 1 \<le> length tr")
    case True
    with le have "i + 1 + answer_run tr i (i + 1) \<le> length tr"
      unfolding answer_run_def by (simp only: length_drop)
    then show ?thesis ..
  next
    case False
    then show ?thesis by (simp add: answer_run_def)
  qed
  then show ?thesis
  proof
    assume "i + 1 + answer_run tr i (i + 1) \<le> length tr"
    then have "map (\<lambda>j. tr ! j) [i + 1..<i + 1 + answer_run tr i (i + 1)]
        = take (answer_run tr i (i + 1)) (drop (i + 1) tr)"
      by (rule map_nth_run)
    also have "\<dots> = takeWhile ?P (drop (i + 1) tr)"
      unfolding answer_run_def by (rule takeWhile_eq_take [symmetric])
    finally show ?thesis by (simp add: group_at_def)
  next
    assume z: "answer_run tr i (i + 1) = 0"
    then have "takeWhile ?P (drop (i + 1) tr) = []"
      unfolding answer_run_def by simp
    with z show ?thesis by (simp add: group_at_def)
  qed
qed

section \<open>The search for the best matching profile\<close>








section \<open>Sample counters in sessions with new uuids\<close>











section \<open>What a match updates\<close>

lemma match_smooths_pitch_and_pace:
  assumes "best_match_of s vf = Some sid"
  shows "\<exists>p p' s'. map_of (participants s) sid = Some p
           \<and> get_or_create_speaker s vf a env = Inr (sid, s')
           \<and> map_of (participants s') sid = Some p'
           \<and> p_avg_pitch p' = 0.3 * get_or 100 (vf_avg_pitch vf) + 0.7 * p_avg_pitch p
           \<and> p_avg_pace p' = 0.3 * get_or 120 (vf_words_per_minute vf) + 0.7 * p_avg_pace p
           \<and> p_avg_energy p' = p_avg_energy p"
proof -
  obtain p where p: "map_of (participants s) sid = Some p"
    using best_match_of_lookup [OF assms] by blast
  show ?thesis
    using p get_or_create_speaker_match [OF assms p, of a env]
    by (simp add: update_conv' smoothed_def)
qed

section \<open>Properties of the session engine\<close>

subsection \<open>C1: speaker resolution\<close>



subsection \<open>C2: when an utterance answers the pending question\<close>



subsection \<open>C3: which entries a Q&A group collects as answers\<close>

text \<open>
  C3, as the code has it.  For every transcript and every index \<open>i\<close> of a question entry,
  the first pass opens a group for \<open>i\<close>, and the answers of that group are exactly the
  longest unbroken run of entries directly after \<open>i\<close> whose \<open>answers_question\<close> is \<open>i\<close>:
  the scan stops at the first entry that does not answer \<open>i\<close>, whether or not that entry
  is a question, or at the end of the transcript.
\<close>

theorem qa_answers_contiguous:
  assumes "i < length tr" and "e_type (tr ! i) = Question"
  shows "(\<exists>g \<in> set (fst (collect_qa tr)). qi_question g = i)
       \<and> (\<forall>g \<in> set (fst (collect_qa tr)). qi_question g = i \<longrightarrow>
            qi_answers g =
              [i + 1..<i + 1 + length (takeWhile (\<lambda>e. e_answers_question e = Some i)
                                                  (drop (i + 1) tr))]
          \<and> qa_answers (qa_entries tr g) =
              takeWhile (\<lambda>e. e_answers_question e = Some i) (drop (i + 1) tr))"
proof (intro conjI ballI impI)
  have "group_at tr i \<in> set (fst (collect_qa tr))"
    using assms by (simp add: collect_qa_char)
  moreover have "qi_question (group_at tr i) = i"
    by (simp add: group_at_def)
  ultimately show "\<exists>g \<in> set (fst (collect_qa tr)). qi_question g = i"
    by blast
next
  fix g assume g: "g \<in> set (fst (collect_qa tr))" "qi_question g = i"
  then obtain k where "g = group_at tr k"
    by (auto simp: collect_qa_char)
  with g(2) have eq: "g = group_at tr i"
    by (simp add: group_at_def)
  show "qi_answers g =
      [i + 1..<i + 1 + length (takeWhile (\<lambda>e. e_answers_question e = Some i) (drop (i + 1) tr))]"
    unfolding eq by (simp add: group_at_def answer_run_def)
  show "qa_answers (qa_entries tr g) =
      takeWhile (\<lambda>e. e_answers_question e = Some i) (drop (i + 1) tr)"
    unfolding eq using group_at_answers_entries [of tr i] by (simp add: qa_entries_def)
qed

theorem qa_answers_contiguous_witness:
  "(0::nat) < length transcript_aside \<and> e_type (transcript_aside ! 0) = Question
   \<and> (\<exists>g \<in> set (fst (collect_qa transcript_aside)).
         qi_question g = 0 \<and> qi_answers g = []
         \<and> qa_answers (qa_entries transcript_aside g) = [])"
proof -
  have h1: "0 < length transcript_aside" by (simp add: transcript_aside_def)
  have h2: "e_type (transcript_aside ! 0) = Question"
    by (simp add: transcript_aside_def entry_question_def)
  have tw: "takeWhile (\<lambda>e. e_answers_question e = Some 0) (drop (0 + 1) transcript_aside) = []"
    by (simp add: transcript_aside_def entry_aside_def)
  show ?thesis
    using qa_answers_contiguous [OF h1 h2] h1 h2 unfolding tw by auto
qed

text \<open>
  C3, as the specification words it, fails.  In the session where A asks, A makes a
  remark and B then answers, entry 2 answers question 0 and only a statement lies in
  between, so the scan of the specification collects entry 2; the group the code opens
  at 0 has no answers.
\<close>

theorem scan_stops_at_statement:
  "spec_answers transcript_aside 0 = [2]
   \<and> map qi_question (fst (collect_qa transcript_aside)) = [0]
   \<and> map qi_answers (fst (collect_qa transcript_aside)) = [[]]
   \<and> e_answers_question (transcript_aside ! 2) = Some 0
   \<and> e_type (transcript_aside ! 1) = Statement"
  by code_simp

subsection \<open>C4: which questions open a group, and the four buckets\<close>

text \<open>
  C4, as the code has it.  For every transcript, the first pass opens one Q&A group for
  every entry of type \<open>Question\<close>, in transcript order, whether or not an earlier group
  has taken that entry as a follow-up; \<open>used_indices\<close> is the set of indices held by the
  groups; and the index sets of the four buckets (Q&A groups, decisions, action items,
  key discussion points) are pairwise disjoint, no index occurring twice in one of the
  last three.
\<close>

theorem minutes_buckets_disjoint:
  "map qi_question (fst (collect_qa tr)) = filter (\<lambda>i. e_type (tr ! i) = Question) [0..<length tr]
   \<and> snd (collect_qa tr) = qa_indices_of tr
   \<and> (let b = collect_buckets tr (snd (collect_qa tr));
           Q = qa_indices_of tr;
           D = set (b_decisions b);
           A = set (b_action_items b);
           K = set (b_key_discussion_points b)
       in Q \<inter> D = {} \<and> Q \<inter> A = {} \<and> Q \<inter> K = {} \<and> D \<inter> A = {} \<and> D \<inter> K = {} \<and> A \<inter> K = {}
          \<and> distinct (b_decisions b) \<and> distinct (b_action_items b)
          \<and> distinct (b_key_discussion_points b))"
proof (intro conjI)
  show "map qi_question (fst (collect_qa tr))
          = filter (\<lambda>i. e_type (tr ! i) = Question) [0..<length tr]"
    by (simp add: collect_qa_char comp_def group_at_def)
  show "snd (collect_qa tr) = qa_indices_of tr"
    by (rule used_indices_char)
  show "let b = collect_buckets tr (snd (collect_qa tr));
           Q = qa_indices_of tr;
           D = set (b_decisions b);
           A = set (b_action_items b);
           K = set (b_key_discussion_points b)
       in Q \<inter> D = {} \<and> Q \<inter> A = {} \<and> Q \<inter> K = {} \<and> D \<inter> A = {} \<and> D \<inter> K = {} \<and> A \<inter> K = {}
          \<and> distinct (b_decisions b) \<and> distinct (b_action_items b)
          \<and> distinct (b_key_discussion_points b)"
    unfolding used_indices_char collect_buckets_char Let_def
    by (auto simp del: upt_Suc)
qed

theorem minutes_buckets_disjoint_witness:
  "map qi_question (fst (collect_qa transcript_follow_up)) = [0, 1]
   \<and> snd (collect_qa transcript_follow_up) = qa_indices_of transcript_follow_up
   \<and> qa_indices_of transcript_follow_up
        \<inter> set (b_decisions (collect_buckets transcript_follow_up
                                 (snd (collect_qa transcript_follow_up)))) = {}"
proof -
  have f: "filter (\<lambda>i. e_type (transcript_follow_up ! i) = Question)
             [0..<length transcript_follow_up] = [0, 1]"
    by code_simp
  show ?thesis
    using minutes_buckets_disjoint [of transcript_follow_up] unfolding f Let_def by blast
qed

text \<open>
  C4, as the specification words it, fails.  In the session where A asks two questions
  in a row and B answers, the question at index 1 is taken as the follow-up of the group
  opened at 0, and a group is opened at index 1 all the same.
\<close>

theorem follow_up_opens_group:
  "map qi_question (fst (collect_qa transcript_follow_up)) = [0, 1]
   \<and> map qi_follow_up_questions (fst (collect_qa transcript_follow_up)) = [[1], []]
   \<and> map qi_answers (fst (collect_qa transcript_follow_up)) = [[], [2]]"
  by code_simp

subsection \<open>C5: the minutes are a function of the store\<close>




subsection \<open>C6: features absent from the feature object\<close>

text \<open>
  C6 at a failing input.  Two utterances without pitch, pace and energy are appended to
  a new session.  The first creates a profile that stores the priors 100, 120 and 5000.
  For the second, the score against that profile counts each absent feature as 0, not
  as its prior: it is \<open>0.5 * 100 + 0.3 * (120 / 10) + 0.2 * (5000 / 50) = 73.6\<close>, not 0, so
  the same voice is not matched and a second participant is created.
\<close>

theorem missing_features_scored_as_zero:
  "score (created new_session no_features ''microphone'' env_a) no_features = 368 / 5
   \<and> map_sum id (map (p_avg_pitch \<circ> snd) \<circ> participants) (run_calls new_session silent_calls)
       = Inr [100, 100]
   \<and> map_sum id (map (p_name \<circ> snd) \<circ> participants) (run_calls new_session silent_calls)
       = Inr [''Participant 1'', ''Participant 2'']"
  by code_simp

subsection \<open>C7: exponential smoothing on a match\<close>

text \<open>
  C7 at a failing input.  Speaker A's profile holds pitch 100, pace 120 and energy 5000;
  a sample with pitch 110, pace 130 and energy 5100 matches it.  Pitch and pace become
  \<open>0.3 * 110 + 0.7 * 100 = 103\<close> and \<open>0.3 * 130 + 0.7 * 120 = 123\<close>; the energy stays 5000,
  where smoothing would give \<open>0.3 * 5100 + 0.7 * 5000 = 5030\<close>.
\<close>

theorem energy_not_smoothed:
  "get_or_create_speaker session_asked features_c ''microphone'' env_b
     = Inr (Speaker ''0000000a'',
            session_asked\<lparr>participants :=
              [(Speaker ''0000000a'',
                profile_a\<lparr>p_avg_pitch := 103, p_avg_pace := 123, p_avg_energy := 5000,
                          p_samples_count := 2\<rparr>)]\<rparr>)
   \<and> 0.3 * 5100 + 0.7 * p_avg_energy profile_a = (5030 :: rat)"
  by code_simp

subsection \<open>C8: the sample counter on a match\<close>



subsection \<open>C9: a text ending in a question mark is a question\<close>



subsection \<open>C10: answer links point back to questions\<close>

text \<open>
  C10.  In every store reachable from a constructed \<open>MeetingStore\<close> by calls of
  \<open>add_utterance\<close> (and by setting the start and end time), every transcript entry that
  carries \<open>answers_question = k\<close> has an index greater than \<open>k\<close>, and the entry at index
  \<open>k\<close> has type \<open>Question\<close> and carries \<open>question_id = k\<close>.
\<close>

theorem answer_links_valid:
  assumes "reachable s" and "j < length (transcript s)"
    and "e_answers_question (transcript s ! j) = Some k"
  shows "k < j \<and> e_type (transcript s ! k) = Question
         \<and> e_question_id (transcript s ! k) = Some k"
  using reachable_links [OF assms(1)] assms(2,3) unfolding links_ok_def by blast

theorem answer_links_valid_witness:
  "reachable session_answered \<and> 1 < length (transcript session_answered)
   \<and> e_answers_question (transcript session_answered ! 1) = Some 0
   \<and> (0::nat) < 1 \<and> e_type (transcript session_answered ! 0) = Question
   \<and> e_question_id (transcript session_answered ! 0) = Some 0"
proof -
  have h2: "1 < length (transcript session_answered)"
    by (simp add: session_answered_def)
  have h3: "e_answers_question (transcript session_answered ! 1) = Some 0"
    by (simp add: session_answered_def entry_sky_def)
  show ?thesis
    using answer_links_valid [OF reachable_session_answered h2 h3] h2 h3
      reachable_session_answered by simp
qed

end
